theory Spec2Isabelle
  imports Complex_Main
begin

section \<open>Lithium-ion cell simulator: data model\<close>

text \<open>
  The program is \<^verbatim>\<open>isaac_battery_model.c\<close>. Its \<^verbatim>\<open>float\<close> values are read as real
  numbers: every arithmetic operation is the exact one, so rounding, overflow to an
  infinity and NaN inputs are outside the model. The one operation of the code that has
  no real result, a division by zero (an infinity or NaN in the C program), is a branch
  of the model: it ends the call with \<open>DivisionByZero\<close>. C \<^verbatim>\<open>int\<close> values are
  read as integers of 32 bits. The width matters in one place, the conversion
  \<^verbatim>\<open>(int)SOC_number\<close>, which is undefined in C when the truncated value does not fit
  and ends the call with \<open>CastOutOfRange\<close>; the other integers are table indices
  and their successors. A read outside the bounds of an array, undefined in C as well,
  ends the call with \<open>OutOfBounds\<close>.
\<close>

datatype error = OutOfBounds | CastOutOfRange | DivisionByZero

text \<open>Sequencing of fallible steps: the first failure ends the computation.\<close>

definition and_then :: "error + 'a \<Rightarrow> ('a \<Rightarrow> error + 'b) \<Rightarrow> error + 'b" where
  "and_then r f = (case r of Inl e \<Rightarrow> Inl e | Inr v \<Rightarrow> f v)"

text \<open>\<^verbatim>\<open>struct battery_model\<close>.\<close>

record battery_model =
  capacityAs :: real
  SOC :: real
  C1Q :: real
  cellT :: real

text \<open>\<^verbatim>\<open>struct battery_model_parameters\<close>.\<close>

record battery_model_parameters =
  Em :: real
  R0 :: real
  R1 :: real
  C1 :: real

text \<open>
  \<^verbatim>\<open>struct battery_model_table\<close>: \<^verbatim>\<open>float values[battery_model_table_temps][battery_model_table_SOCs]\<close>,
  a list of rows (one per temperature), each a list of entries (one per state of charge).
\<close>

type_synonym battery_model_table = "real list list"

definition battery_model_table_SOCs :: int where
  "battery_model_table_SOCs = 11"

definition battery_model_table_temps :: int where
  "battery_model_table_temps = 4"

definition battery_model_temperatures :: "real list" where
  "battery_model_temperatures = [-20, -10, -5, 2]"

definition battery_model_Em :: battery_model_table where
  "battery_model_Em =
    [[3.5, 3.65, 3.7, 3.75, 3.78, 3.8, 3.85, 3.9, 3.95, 4.1, 4.2],
     [3.5, 3.65, 3.7, 3.746368, 3.794009, 3.824597, 3.870755, 3.921037, 3.984153, 4.1, 4.2],
     [3.5, 3.717802, 3.751656, 3.779548, 3.805342, 3.837747, 3.886275, 3.92452, 4.019383, 4.131402, 4.2],
     [3.5, 3.723299, 3.754516, 3.788628, 3.812054, 3.840599, 3.888213, 3.933897, 4.024288, 4.130746, 4.182739]]"

definition battery_model_R0 :: battery_model_table where
  "battery_model_R0 =
    [[0.26, 0.26, 0.26, 0.13, 0.13, 0.13, 0.13, 0.13, 0.25, 0.2, 0.67],
     [0.3, 0.050589, 0.144401, 0.085073, 0.091675, 0.085872, 0.08382, 0.084737, 0.075961, 0.15, 0.25],
     [0.2, 0.029142, 0.029737, 0.031219, 0.031587, 0.030885, 0.031477, 0.030845, 0.030875, 0.025, 0.016],
     [0.032564, 0.022225, 0.019854, 0.024638, 0.022878, 0.021342, 0.022003, 0.02195, 0.021421, 0.023454, 0.014168]]"

definition battery_model_R1 :: battery_model_table where
  "battery_model_R1 =
    [[2, 0.75, 0.21, 0.190953, 0.147748, 0.127334, 0.143009, 0.180778, 0.1, 0.261743, 0.85],
     [0.003815, 0.007988, 0.020238, 0.015108, 0.01404, 0.014878, 0.014838, 0.014781, 0.015083, 0.15, 0.3],
     [0.011421, 0.003253, 0.012514, 0.00939, 0.010378, 0.009284, 0.008821, 0.008391, 0.010644, 0.008414, 0.007233],
     [0.025991, 0.003294, 0.013872, 0.013772, 0.013957, 0.011306, 0.01088, 0.01135, 0.015937, 0.012274, 0.007585]]"

definition battery_model_C1 :: battery_model_table where
  "battery_model_C1 =
    [[400, 500, 600, 846, 846, 846, 846, 846, 600, 846, 596],
     [14.34898, 28719.38, 1818.858, 5832.355, 8962.667, 8772.705, 8750.688, 8565.881, 7004.807, 11188.4, 7370.326],
     [0.881527, 33414.97, 2179.029, 11289.18, 7234.158, 6226.428, 5750.18, 9030.291, 3869.932, 11851, 7122.03],
     [0.262732, 50759.86, 3022.06, 15720.72, 8308.124, 7180.572, 6619.685, 13150.94, 4201.662, 15103.12, 6852.036]]"

text \<open>
  A table of the shape of the C array (4 rows of 11 entries) with positive entries
  only. The four tables above are such tables (\<open>tables_positive\<close> below).
\<close>

definition table_positive :: "battery_model_table \<Rightarrow> bool" where
  "table_positive table =
    (length table = 4
     \<and> list_all (\<lambda>row. length row = 11 \<and> list_all (\<lambda>x. 0 < x) row) table)"

section \<open>Primitive operations of the C program\<close>

text \<open>
  \<^verbatim>\<open>table->values[i][j]\<close>. The array has \<open>battery_model_table_temps\<close> rows of
  \<open>battery_model_table_SOCs\<close> entries; an index outside either range is a read out of
  bounds.
\<close>

definition table_value :: "battery_model_table \<Rightarrow> int \<Rightarrow> int \<Rightarrow> error + real" where
  "table_value table i j =
    (if 0 \<le> i \<and> i < battery_model_table_temps \<and> 0 \<le> j \<and> j < battery_model_table_SOCs
     then Inr (table ! nat i ! nat j)
     else Inl OutOfBounds)"

text \<open>
  Division of two \<^verbatim>\<open>float\<close>s. A zero divisor gives no real number.
\<close>

definition fdiv :: "real \<Rightarrow> real \<Rightarrow> error + real" where
  "fdiv x y = (if y = 0 then Inl DivisionByZero else Inr (x / y))"

text \<open>
  The conversion \<^verbatim>\<open>(int)x\<close> of a \<^verbatim>\<open>float\<close>: the fractional part is discarded
  (truncation toward zero); the behaviour is undefined when the truncated value is not
  an \<^verbatim>\<open>int\<close>, that is, outside \<open>-2^31 .. 2^31 - 1\<close>.
\<close>

definition float_to_int :: "real \<Rightarrow> error + int" where
  "float_to_int x =
    (if - (2 ^ 31) - 1 < x \<and> x < 2 ^ 31
     then Inr (if 0 \<le> x then \<lfloor>x\<rfloor> else \<lceil>x\<rceil>)
     else Inl CastOutOfRange)"

section \<open>Bilinear interpolation\<close>

text \<open>\<^verbatim>\<open>battery_model_interpolate\<close> (lines 78 to 94).\<close>

definition battery_model_interpolate ::
    "battery_model_table \<Rightarrow> real \<Rightarrow> int \<Rightarrow> real \<Rightarrow> int \<Rightarrow> error + real" where
  "battery_model_interpolate table T_number T_index SOC_number SOC_index =
    (let SOC_next = SOC_index + 1;
         SOC_next = (if SOC_next \<ge> battery_model_table_SOCs
                     then battery_model_table_SOCs - 1 else SOC_next);
         T_next = T_index + 1;
         T_next = (if T_next \<ge> battery_model_table_temps
                   then battery_model_table_temps else T_next)
     in and_then (table_value table T_index SOC_index) (\<lambda>II.
        and_then (table_value table T_index SOC_next) (\<lambda>IN.
        and_then (table_value table T_next SOC_index) (\<lambda>TI.
        and_then (table_value table T_next SOC_next) (\<lambda>TN.
          let I = II + (IN - II) * (SOC_number - real_of_int SOC_index);
              T = TI + (TN - TI) * (SOC_number - real_of_int SOC_index);
              ret = I + (T - I) * (T_number - real_of_int T_index)
          in Inr ret)))))"

section \<open>Parameter lookup\<close>

text \<open>
  The first block of \<^verbatim>\<open>battery_model_get_parameters\<close> (lines 100 to 103): the
  coordinate of the state of charge on the table's axis and its index. Each of the two
  guards assigns the index and the coordinate together
  (\<^verbatim>\<open>SOC_number=SOC_index=0\<close>).
\<close>

definition SOC_lookup :: "real \<Rightarrow> error + (real \<times> int)" where
  "SOC_lookup soc =
    (let SOC_number = soc * real_of_int (battery_model_table_SOCs - 1)
     in and_then (float_to_int SOC_number) (\<lambda>SOC_index.
          let (SOC_number, SOC_index) =
                (if SOC_index < 0 then (0, 0) else (SOC_number, SOC_index));
              (SOC_number, SOC_index) =
                (if SOC_index \<ge> battery_model_table_SOCs
                 then (real_of_int (battery_model_table_SOCs - 1), battery_model_table_SOCs - 1)
                 else (SOC_number, SOC_index))
          in Inr (SOC_number, SOC_index)))"

text \<open>
  The \<^verbatim>\<open>while\<close> loop of lines 108 to 110, started at \<open>T_index = 0\<close>. The guard
  \<open>T_index + 1 < battery_model_table_temps\<close> keeps the read of
  \<open>battery_model_temperatures\<close> inside the array.
\<close>

function T_scan :: "real \<Rightarrow> int \<Rightarrow> int" where
  "T_scan lookupT T_index =
    (if T_index + 1 < battery_model_table_temps
        \<and> battery_model_temperatures ! nat (T_index + 1) \<le> lookupT
     then T_scan lookupT (T_index + 1)
     else T_index)"
  by pat_completeness auto
termination
  by (relation "measure (\<lambda>(lookupT, T_index). nat (battery_model_table_temps - T_index))") auto

text \<open>
  The second block of \<^verbatim>\<open>battery_model_get_parameters\<close> (lines 106 to 117): the
  index of the temperature and its coordinate \<open>T_number\<close>, which stays \<open>0\<close> when the
  index is the last one.
\<close>

definition T_lookup :: "real \<Rightarrow> error + (real \<times> int)" where
  "T_lookup lookupT =
    (let T_index = T_scan lookupT 0
     in if T_index + 1 < battery_model_table_temps
        then (let last = battery_model_temperatures ! nat T_index;
                  next = battery_model_temperatures ! nat (T_index + 1)
              in and_then (fdiv (lookupT - last) (next - last)) (\<lambda>q.
                   Inr (real_of_int T_index + q, T_index)))
        else Inr (0, T_index))"

text \<open>\<^verbatim>\<open>battery_model_get_parameters\<close> (lines 97 to 123).\<close>

definition battery_model_get_parameters :: "battery_model \<Rightarrow> error + battery_model_parameters" where
  "battery_model_get_parameters battery =
    and_then (SOC_lookup (SOC battery)) (\<lambda>(SOC_number, SOC_index).
    and_then (T_lookup (cellT battery)) (\<lambda>(T_number, T_index).
    and_then (battery_model_interpolate battery_model_Em T_number T_index SOC_number SOC_index) (\<lambda>Em'.
    and_then (battery_model_interpolate battery_model_R0 T_number T_index SOC_number SOC_index) (\<lambda>R0'.
    and_then (battery_model_interpolate battery_model_R1 T_number T_index SOC_number SOC_index) (\<lambda>R1'.
    and_then (battery_model_interpolate battery_model_C1 T_number T_index SOC_number SOC_index) (\<lambda>C1'.
      Inr \<lparr>Em = Em', R0 = R0', R1 = R1', C1 = C1'\<rparr>))))))"

section \<open>The operations on a battery\<close>

text \<open>
  \<^verbatim>\<open>battery_model_init\<close> (lines 137 to 143). The C function has no failure path; the
  result is written as a success so that all operations have results of one shape.
\<close>

definition battery_model_init :: "real \<Rightarrow> real \<Rightarrow> real \<Rightarrow> error + battery_model" where
  "battery_model_init capacityAh soc tempC =
    Inr \<lparr>capacityAs = capacityAh * 3600, SOC = soc, C1Q = 0, cellT = tempC\<rparr>"

text \<open>
  \<^verbatim>\<open>battery_model_voltage\<close> (lines 147 to 159). The battery is passed by pointer to
  \<^verbatim>\<open>const\<close> and never written: the model returns the voltage only.
\<close>

definition battery_model_voltage :: "battery_model \<Rightarrow> real \<Rightarrow> error + real" where
  "battery_model_voltage battery amps =
    and_then (battery_model_get_parameters battery) (\<lambda>param.
      let R0V = R0 param * amps
      in and_then (fdiv (C1Q battery) (C1 param)) (\<lambda>R1V.
           Inr (Em param - R1V - R0V)))"

text \<open>
  \<^verbatim>\<open>battery_model_electrical\<close> (lines 167 to 192): the updated battery and the heat
  energy returned.
\<close>

definition battery_model_electrical ::
    "battery_model \<Rightarrow> real \<Rightarrow> real \<Rightarrow> error + (battery_model \<times> real)" where
  "battery_model_electrical battery amps dt =
    and_then (battery_model_get_parameters battery) (\<lambda>param.
      let R0I = amps;
          R0V = R0 param * R0I
      in and_then (fdiv (C1Q battery) (C1 param)) (\<lambda>C1V.
           let R1V = C1V
           in and_then (fdiv R1V (R1 param)) (\<lambda>R1I.
                let C1I = amps - R1I;
                    battery = battery\<lparr>C1Q := C1Q battery + C1I * dt\<rparr>;
                    SOC_amps = amps
                in and_then (fdiv (SOC_amps * dt) (capacityAs battery)) (\<lambda>d.
                     let battery = battery\<lparr>SOC := SOC battery - d\<rparr>;
                         power = R0V * R0I + R1V * R1I;
                         energy = power * dt
                     in Inr (battery, energy)))))"

text \<open>\<^verbatim>\<open>battery_model_thermal\<close> (lines 205 to 213).\<close>

definition battery_model_thermal ::
    "battery_model \<Rightarrow> real \<Rightarrow> real \<Rightarrow> real \<Rightarrow> real \<Rightarrow> real \<Rightarrow> real \<Rightarrow> real \<Rightarrow> error + battery_model" where
  "battery_model_thermal battery heating_joules specific_heat mass ambientT Rvalue area dt =
    and_then (fdiv ((cellT battery - ambientT) * area) Rvalue) (\<lambda>q.
      let cool_joules = q * dt
      in and_then (fdiv (heating_joules - cool_joules) (specific_heat * mass)) (\<lambda>netT.
           Inr (battery\<lparr>cellT := cellT battery + netT\<rparr>)))"

text \<open>
  A caller's loop that applies \<^verbatim>\<open>battery_model_electrical\<close> \<open>n\<close> times with the
  same current and timestep, discarding the heat (the electrical part of the loop of
  \<^verbatim>\<open>main\<close>).
\<close>

fun repeat_electrical :: "nat \<Rightarrow> real \<Rightarrow> real \<Rightarrow> battery_model \<Rightarrow> error + battery_model" where
  "repeat_electrical 0 amps dt battery = Inr battery"
| "repeat_electrical (Suc n) amps dt battery =
    and_then (battery_model_electrical battery amps dt) (\<lambda>(battery', heat).
      repeat_electrical n amps dt battery')"

section \<open>Basic facts\<close>

lemmas table_sizes = battery_model_table_SOCs_def battery_model_table_temps_def

lemma and_then_Inr: "and_then (Inr v) f = f v"
  by (simp add: and_then_def)

lemma and_then_Inl: "and_then (Inl e) f = Inl e"
  by (simp add: and_then_def)

lemma fdiv_nonzero: "y \<noteq> 0 \<Longrightarrow> fdiv x y = Inr (x / y)"
  by (simp add: fdiv_def)

lemma float_to_int_nonneg:
  "0 \<le> x \<Longrightarrow> x < 2 ^ 31 \<Longrightarrow> float_to_int x = Inr \<lfloor>x\<rfloor>"
  by (simp add: float_to_int_def)

lemma float_to_int_neg:
  "x < 0 \<Longrightarrow> - (2 ^ 31) - 1 < x \<Longrightarrow> float_to_int x = Inr \<lceil>x\<rceil>"
  by (simp add: float_to_int_def)

subsection \<open>The temperature scan\<close>

text \<open>The loop, unrolled from its last possible start to its first.\<close>

lemma T_scan_3: "T_scan lookupT 3 = 3"
  by (subst T_scan.simps) (simp add: table_sizes)

lemma T_scan_2: "T_scan lookupT 2 = (if 2 \<le> lookupT then 3 else 2)"
  by (subst T_scan.simps) (simp add: table_sizes battery_model_temperatures_def T_scan_3)

lemma T_scan_1:
  "T_scan lookupT 1 = (if 2 \<le> lookupT then 3 else if -5 \<le> lookupT then 2 else 1)"
  by (subst T_scan.simps) (simp add: table_sizes battery_model_temperatures_def T_scan_2)

lemma T_scan_0:
  "T_scan lookupT 0 =
    (if 2 \<le> lookupT then 3 else if -5 \<le> lookupT then 2 else if -10 \<le> lookupT then 1 else 0)"
  by (subst T_scan.simps) (simp add: table_sizes battery_model_temperatures_def T_scan_1)

text \<open>
  The temperature lookup never fails: the differences of neighbouring entries of
  \<open>battery_model_temperatures\<close> are 10, 5 and 7.
\<close>

lemma T_lookup_cases:
  "T_lookup lookupT =
    (if 2 \<le> lookupT then Inr (0, 3)
     else if -5 \<le> lookupT then Inr (2 + (lookupT + 5) / 7, 2)
     else if -10 \<le> lookupT then Inr (1 + (lookupT + 10) / 5, 1)
     else Inr ((lookupT + 20) / 10, 0))"
  by (simp add: T_lookup_def T_scan_0 table_sizes battery_model_temperatures_def
      fdiv_def and_then_def)

subsection \<open>The state-of-charge lookup\<close>

lemma SOC_lookup_unit:
  assumes "0 \<le> soc" and "soc < 1"
  shows "SOC_lookup soc = Inr (soc * 10, \<lfloor>soc * 10\<rfloor>)"
proof -
  have "0 \<le> soc * 10" "soc * 10 < 10" using assms by simp_all
  then have "0 \<le> \<lfloor>soc * 10\<rfloor>" "\<lfloor>soc * 10\<rfloor> < 10"
    by (simp_all add: floor_less_iff)
  moreover have "float_to_int (soc * 10) = Inr \<lfloor>soc * 10\<rfloor>"
    using \<open>0 \<le> soc * 10\<close> \<open>soc * 10 < 10\<close> by (intro float_to_int_nonneg) simp_all
  ultimately show ?thesis
    by (simp add: SOC_lookup_def table_sizes and_then_Inr Let_def)
qed

lemma SOC_lookup_high:
  assumes "1 \<le> soc" and "soc * 10 < 2 ^ 31"
  shows "SOC_lookup soc = Inr (if soc * 10 < 11 then soc * 10 else 10, 10)"
proof -
  define i where "i = \<lfloor>soc * 10\<rfloor>"
  have ge: "10 \<le> soc * 10" using assms by simp
  then have f: "float_to_int (soc * 10) = Inr i"
    unfolding i_def using assms(2) by (intro float_to_int_nonneg) simp_all
  have lo: "10 \<le> i" unfolding i_def using ge by (simp add: le_floor_iff)
  show ?thesis
  proof (cases "soc * 10 < 11")
    case True
    then have "i < 11" unfolding i_def by (simp add: floor_less_iff)
    with lo have "i = 10" by simp
    with True show ?thesis
      by (simp add: SOC_lookup_def table_sizes and_then_Inr f Let_def)
  next
    case False
    then have "11 \<le> i" unfolding i_def by (simp add: le_floor_iff)
    with False show ?thesis
      by (simp add: SOC_lookup_def table_sizes and_then_Inr f Let_def)
  qed
qed

lemma SOC_lookup_below:
  assumes "soc * 10 \<le> - 1" and "- (2 ^ 31) - 1 < soc * 10"
  shows "SOC_lookup soc = Inr (0, 0)"
proof -
  define i where "i = \<lceil>soc * 10\<rceil>"
  have f: "float_to_int (soc * 10) = Inr i"
    unfolding i_def using assms by (intro float_to_int_neg) simp_all
  have "i \<le> - 1" unfolding i_def using assms(1) by (simp add: ceiling_le_iff)
  then show ?thesis
    by (simp add: SOC_lookup_def table_sizes and_then_Inr f Let_def)
qed

lemma SOC_lookup_neg_fraction:
  assumes "- 1 < soc * 10" and "soc < 0"
  shows "SOC_lookup soc = Inr (soc * 10, 0)"
proof -
  have lt: "soc * 10 < 0" using assms(2) by simp
  have f: "float_to_int (soc * 10) = Inr \<lceil>soc * 10\<rceil>"
    using assms lt by (intro float_to_int_neg) simp_all
  have "\<lceil>soc * 10\<rceil> = 0" using assms(1) lt by (simp add: ceiling_eq_iff)
  then show ?thesis
    by (simp add: SOC_lookup_def table_sizes and_then_Inr f Let_def)
qed

lemma SOC_lookup_index:
  assumes "SOC_lookup soc = Inr (sn, si)"
  shows "0 \<le> si \<and> si \<le> 10"
  using assms
  by (auto simp add: SOC_lookup_def table_sizes and_then_def Let_def
      split: sum.splits if_splits)

lemma SOC_lookup_total:
  assumes "- (2 ^ 31) - 1 < soc * 10" and "soc * 10 < 2 ^ 31"
  shows "\<exists>sn si. SOC_lookup soc = Inr (sn, si)"
  using assms
  by (simp add: SOC_lookup_def table_sizes and_then_def float_to_int_def Let_def
      split: prod.splits)

subsection \<open>Interpolation inside the table\<close>

lemma interpolate_in:
  assumes "0 \<le> ti" "ti \<le> 2" "0 \<le> si" "si \<le> 10"
  shows "battery_model_interpolate table t ti s si =
    Inr (let sn = (if si = 10 then 10 else si + 1);
             II = table ! nat ti ! nat si; IN = table ! nat ti ! nat sn;
             TI = table ! nat (ti + 1) ! nat si; TN = table ! nat (ti + 1) ! nat sn;
             I = II + (IN - II) * (s - real_of_int si);
             T = TI + (TN - TI) * (s - real_of_int si)
         in I + (T - I) * (t - real_of_int ti))"
  using assms
  by (simp add: battery_model_interpolate_def Let_def table_sizes table_value_def and_then_def)

lemma interpolate_last_row:
  "battery_model_interpolate table T_number 3 SOC_number SOC_index = Inl OutOfBounds"
  by (simp add: battery_model_interpolate_def Let_def table_sizes table_value_def and_then_def)

subsection \<open>Parameters of two sample batteries\<close>

text \<open>
  The battery of \<^verbatim>\<open>main\<close> (1.8 Ah, fully charged, at -20 degrees), and one at 80 percent
  charge with one coulomb on the capacitor.
\<close>

lemmas tables = battery_model_Em_def battery_model_R0_def battery_model_R1_def
  battery_model_C1_def

lemma full_cold_parameters:
  "battery_model_get_parameters \<lparr>capacityAs = 6480, SOC = 1, C1Q = 0, cellT = -20\<rparr>
    = Inr \<lparr>Em = 4.2, R0 = 0.67, R1 = 0.85, C1 = 596\<rparr>"
proof -
  have s: "SOC_lookup 1 = Inr (10, 10)" using SOC_lookup_high [of 1] by simp
  show ?thesis
    by (simp add: battery_model_get_parameters_def s T_lookup_cases and_then_Inr
        interpolate_in tables)
qed

lemma partial_cold_parameters:
  "battery_model_get_parameters \<lparr>capacityAs = 6480, SOC = 0.8, C1Q = 1, cellT = -20\<rparr>
    = Inr \<lparr>Em = 3.95, R0 = 0.25, R1 = 0.1, C1 = 600\<rparr>"
proof -
  have s: "SOC_lookup (4 / 5) = Inr (8, 8)" using SOC_lookup_unit [of "4 / 5"] by simp
  show ?thesis
    by (simp add: battery_model_get_parameters_def s T_lookup_cases and_then_Inr
        interpolate_in tables)
qed

subsection \<open>One electrical step\<close>

lemma get_parameters_frame:
  "SOC b' = SOC b \<Longrightarrow> cellT b' = cellT b \<Longrightarrow>
   battery_model_get_parameters b' = battery_model_get_parameters b"
  by (simp add: battery_model_get_parameters_def)

lemma electrical_defined:
  assumes "battery_model_get_parameters b = Inr p"
    and "C1 p \<noteq> 0" and "R1 p \<noteq> 0" and "capacityAs b \<noteq> 0"
  shows "battery_model_electrical b amps dt =
    Inr (\<lparr>capacityAs = capacityAs b,
          SOC = SOC b - amps * dt / capacityAs b,
          C1Q = C1Q b + (amps - C1Q b / C1 p / R1 p) * dt,
          cellT = cellT b\<rparr>,
         (R0 p * amps * amps + C1Q b / C1 p * (C1Q b / C1 p / R1 p)) * dt)"
  using assms
  by (simp add: battery_model_electrical_def and_then_Inr fdiv_nonzero Let_def)

subsection \<open>Zero-draw steps\<close>

lemma zero_draw_step:
  assumes "battery_model_get_parameters b = Inr p"
    and "C1 p \<noteq> 0" and "R1 p \<noteq> 0" and "capacityAs b \<noteq> 0"
  shows "battery_model_electrical b 0 dt =
    Inr (\<lparr>capacityAs = capacityAs b, SOC = SOC b,
          C1Q = C1Q b * (1 - dt / (R1 p * C1 p)), cellT = cellT b\<rparr>,
         C1Q b / C1 p * (C1Q b / C1 p / R1 p) * dt)"
proof -
  have "C1Q b + (0 - C1Q b / C1 p / R1 p) * dt = C1Q b * (1 - dt / (R1 p * C1 p))"
    using assms(2,3) by (simp add: field_simps)
  then show ?thesis
    using electrical_defined [OF assms, of 0 dt] by simp
qed

text \<open>
  The parameters depend on \<open>SOC\<close> and \<open>cellT\<close> only, and a zero-draw step changes
  neither: every step of the loop sees the same parameters.
\<close>

lemma repeat_zero_draw:
  assumes "battery_model_get_parameters b = Inr p"
    and "C1 p \<noteq> 0" and "R1 p \<noteq> 0" and "capacityAs b \<noteq> 0"
  shows "repeat_electrical n 0 dt b =
    Inr \<lparr>capacityAs = capacityAs b, SOC = SOC b,
         C1Q = C1Q b * (1 - dt / (R1 p * C1 p)) ^ n, cellT = cellT b\<rparr>"
  using assms
proof (induction n arbitrary: b)
  case 0
  then show ?case by simp
next
  case (Suc n)
  let ?b1 = "\<lparr>capacityAs = capacityAs b, SOC = SOC b,
          C1Q = C1Q b * (1 - dt / (R1 p * C1 p)), cellT = cellT b\<rparr>"
  have step: "battery_model_electrical b 0 dt =
      Inr (?b1, C1Q b / C1 p * (C1Q b / C1 p / R1 p) * dt)"
    by (rule zero_draw_step [OF Suc.prems])
  have "battery_model_get_parameters ?b1 = battery_model_get_parameters b"
    by (rule get_parameters_frame) simp_all
  then have p1: "battery_model_get_parameters ?b1 = Inr p"
    using Suc.prems(1) by simp
  have "repeat_electrical n 0 dt ?b1 =
      Inr \<lparr>capacityAs = capacityAs ?b1, SOC = SOC ?b1,
           C1Q = C1Q ?b1 * (1 - dt / (R1 p * C1 p)) ^ n, cellT = cellT ?b1\<rparr>"
    using Suc.prems(2-4) by (intro Suc.IH [OF p1]) simp_all
  then show ?case
    by (simp add: step and_then_Inr mult.assoc)
qed

lemma relaxation_limit:
  fixes q r :: real
  assumes "\<bar>r\<bar> < 1"
  shows "(\<lambda>n. q * r ^ n) \<longlonglongrightarrow> 0"
proof -
  have "(\<lambda>n. r ^ n) \<longlonglongrightarrow> 0"
    using assms by (intro LIMSEQ_power_zero) simp
  then show ?thesis
    by (rule tendsto_mult_right_zero)
qed

subsection \<open>The last column of a table\<close>





subsection \<open>An empty battery at the two lowest temperatures of the tables\<close>

lemma SOC_lookup_zero: "SOC_lookup 0 = Inr (0, 0)"
  using SOC_lookup_unit [of 0] by simp

lemma empty_parameters_minus20:
  "battery_model_get_parameters \<lparr>capacityAs = 6480, SOC = 0, C1Q = 0, cellT = - 20\<rparr>
    = Inr \<lparr>Em = 3.5, R0 = 0.26, R1 = 2, C1 = 400\<rparr>"
  by (simp add: battery_model_get_parameters_def SOC_lookup_zero T_lookup_cases and_then_Inr
      interpolate_in tables)

lemma empty_parameters_minus10:
  "battery_model_get_parameters \<lparr>capacityAs = 6480, SOC = 0, C1Q = 0, cellT = - 10\<rparr>
    = Inr \<lparr>Em = 3.5, R0 = 0.3, R1 = 0.003815, C1 = 14.34898\<rparr>"
  by (simp add: battery_model_get_parameters_def SOC_lookup_zero T_lookup_cases and_then_Inr
      interpolate_in tables)

subsection \<open>Inside the calibrated range\<close>

text \<open>
  For a state of charge in \<open>[0, 1)\<close> the index is between 0 and 9 and the fraction
  \<open>SOC_number - SOC_index\<close> is in \<open>[0, 1)\<close>; at exactly 1 the index is 10 and the
  fraction 0 (\<open>SOC_lookup_high\<close>).
\<close>

lemma SOC_lookup_unit_bounds:
  assumes "0 \<le> soc" and "soc < 1"
  shows "\<exists>sn si. SOC_lookup soc = Inr (sn, si) \<and> sn = soc * 10
     \<and> 0 \<le> si \<and> si \<le> 9 \<and> 0 \<le> sn - real_of_int si \<and> sn - real_of_int si < 1"
proof -
  have "0 \<le> soc * 10" "soc * 10 < 10" using assms by simp_all
  then have "0 \<le> \<lfloor>soc * 10\<rfloor>" "\<lfloor>soc * 10\<rfloor> \<le> 9"
    by (simp_all add: floor_less_iff le_floor_iff)
  moreover have "0 \<le> soc * 10 - real_of_int \<lfloor>soc * 10\<rfloor>"
    "soc * 10 - real_of_int \<lfloor>soc * 10\<rfloor> < 1"
    by linarith+
  ultimately show ?thesis
    using SOC_lookup_unit [OF assms] by simp
qed

text \<open>
  Inside the calibrated range (a state of charge in \<open>[0, 1]\<close>, a temperature from -20
  up to, but not including, 2 degrees) both fractions are in \<open>[0, 1]\<close>, every
  parameter is a convex combination of four positive entries, and the lookup succeeds
  with four positive parameters.
\<close>

lemma blend_positive:
  fixes a b w :: real
  assumes "0 < a" and "0 < b" and "0 \<le> w" and "w \<le> 1"
  shows "0 < a + (b - a) * w"
proof -
  have eq: "a + (b - a) * w = (1 - w) * a + w * b" by (simp add: algebra_simps)
  show ?thesis
  proof (cases "w = 1")
    case True
    then show ?thesis using assms(2) by simp
  next
    case False
    then have "0 < (1 - w) * a" using assms(1,4) by simp
    moreover have "0 \<le> w * b" using assms(2,3) by simp
    ultimately show ?thesis unfolding eq by linarith
  qed
qed

lemma table_positive_entry:
  assumes "table_positive table" and "0 \<le> i" "i < 4" "0 \<le> j" "j < 11"
  shows "0 < table ! nat i ! nat j"
proof -
  have i: "nat i < length table" using assms by (simp add: table_positive_def)
  then have row: "length (table ! nat i) = 11 \<and> list_all (\<lambda>x. 0 < x) (table ! nat i)"
    using assms(1) by (simp add: table_positive_def list_all_length)
  then have "nat j < length (table ! nat i)" using assms by simp
  with row show ?thesis by (simp add: list_all_length)
qed

lemma tables_positive:
  "table_positive battery_model_Em" "table_positive battery_model_R0"
  "table_positive battery_model_R1" "table_positive battery_model_C1"
  by (simp_all add: table_positive_def tables)

lemma interpolate_positive:
  assumes tp: "table_positive table"
    and ti: "0 \<le> ti" "ti \<le> 2" and si: "0 \<le> si" "si \<le> 10"
    and s: "real_of_int si \<le> s" "s \<le> real_of_int si + 1"
    and t: "real_of_int ti \<le> t" "t \<le> real_of_int ti + 1"
  shows "\<exists>v. battery_model_interpolate table t ti s si = Inr v \<and> 0 < v"
proof -
  define sn where "sn = (if si = 10 then 10 else si + 1)"
  have sn: "0 \<le> sn" "sn < 11" using si by (simp_all add: sn_def)
  define II where "II = table ! nat ti ! nat si"
  define IN where "IN = table ! nat ti ! nat sn"
  define TI where "TI = table ! nat (ti + 1) ! nat si"
  define TN where "TN = table ! nat (ti + 1) ! nat sn"
  have pos: "0 < II" "0 < IN" "0 < TI" "0 < TN"
    unfolding II_def IN_def TI_def TN_def
    using ti si sn by (auto intro!: table_positive_entry [OF tp])
  have w: "0 \<le> s - real_of_int si" "s - real_of_int si \<le> 1" using s by simp_all
  have v: "0 \<le> t - real_of_int ti" "t - real_of_int ti \<le> 1" using t by simp_all
  have I: "0 < II + (IN - II) * (s - real_of_int si)"
    by (rule blend_positive [OF pos(1,2) w])
  have T: "0 < TI + (TN - TI) * (s - real_of_int si)"
    by (rule blend_positive [OF pos(3,4) w])
  have "0 < (II + (IN - II) * (s - real_of_int si))
      + ((TI + (TN - TI) * (s - real_of_int si)) - (II + (IN - II) * (s - real_of_int si)))
        * (t - real_of_int ti)"
    by (rule blend_positive [OF I T v])
  then show ?thesis
    unfolding interpolate_in [OF ti si]
    by (simp add: Let_def sn_def II_def IN_def TI_def TN_def)
qed

lemma SOC_lookup_calibrated:
  assumes "0 \<le> soc" and "soc \<le> 1"
  shows "\<exists>sn si. SOC_lookup soc = Inr (sn, si) \<and> 0 \<le> si \<and> si \<le> 10
     \<and> real_of_int si \<le> sn \<and> sn \<le> real_of_int si + 1"
proof (cases "soc = 1")
  case True
  then show ?thesis using SOC_lookup_high [of 1] by simp
next
  case False
  then have "soc < 1" using assms(2) by simp
  from SOC_lookup_unit_bounds [OF assms(1) this] show ?thesis by force
qed

lemma T_lookup_calibrated:
  assumes "- 20 \<le> lookupT" and "lookupT < 2"
  shows "\<exists>tn ti. T_lookup lookupT = Inr (tn, ti) \<and> 0 \<le> ti \<and> ti \<le> 2
     \<and> real_of_int ti \<le> tn \<and> tn \<le> real_of_int ti + 1"
proof -
  consider "lookupT < - 10" | "- 10 \<le> lookupT" "lookupT < - 5" | "- 5 \<le> lookupT"
    by linarith
  then show ?thesis
  proof cases
    case 1
    then have "T_lookup lookupT = Inr ((lookupT + 20) / 10, 0)" by (simp add: T_lookup_cases)
    then show ?thesis using 1 assms
      by (intro exI [of _ "(lookupT + 20) / 10"] exI [of _ "0::int"]) simp
  next
    case 2
    then have "T_lookup lookupT = Inr (1 + (lookupT + 10) / 5, 1)" by (simp add: T_lookup_cases)
    then show ?thesis using 2
      by (intro exI [of _ "1 + (lookupT + 10) / 5"] exI [of _ "1::int"]) simp
  next
    case 3
    then have "T_lookup lookupT = Inr (2 + (lookupT + 5) / 7, 2)"
      using assms(2) by (simp add: T_lookup_cases)
    then show ?thesis using 3 assms(2)
      by (intro exI [of _ "2 + (lookupT + 5) / 7"] exI [of _ "2::int"]) simp
  qed
qed

lemma calibrated_parameters_positive:
  assumes "0 \<le> SOC b" and "SOC b \<le> 1" and "- 20 \<le> cellT b" and "cellT b < 2"
  shows "\<exists>p. battery_model_get_parameters b = Inr p
     \<and> 0 < Em p \<and> 0 < R0 p \<and> 0 < R1 p \<and> 0 < C1 p"
proof -
  obtain sn si where s: "SOC_lookup (SOC b) = Inr (sn, si)" "0 \<le> si" "si \<le> 10"
      "real_of_int si \<le> sn" "sn \<le> real_of_int si + 1"
    using SOC_lookup_calibrated [OF assms(1,2)] by blast
  obtain tn ti where t: "T_lookup (cellT b) = Inr (tn, ti)" "0 \<le> ti" "ti \<le> 2"
      "real_of_int ti \<le> tn" "tn \<le> real_of_int ti + 1"
    using T_lookup_calibrated [OF assms(3,4)] by blast
  note ip = interpolate_positive [OF _ t(2,3) s(2,3) s(4,5) t(4,5)]
  obtain e where e: "battery_model_interpolate battery_model_Em tn ti sn si = Inr e" "0 < e"
    using ip [OF tables_positive(1)] by blast
  obtain r0 where r0: "battery_model_interpolate battery_model_R0 tn ti sn si = Inr r0" "0 < r0"
    using ip [OF tables_positive(2)] by blast
  obtain r1 where r1: "battery_model_interpolate battery_model_R1 tn ti sn si = Inr r1" "0 < r1"
    using ip [OF tables_positive(3)] by blast
  obtain c1 where c1: "battery_model_interpolate battery_model_C1 tn ti sn si = Inr c1" "0 < c1"
    using ip [OF tables_positive(4)] by blast
  show ?thesis
    by (simp add: battery_model_get_parameters_def s(1) t(1) e r0 r1 c1 and_then_Inr)
qed

text \<open>
  There the divisors \<open>C1\<close> and \<open>R1\<close> are never zero: with a nonzero capacity the
  electrical step returns a heat of at least 0 for every current, and the voltage is
  always defined.
\<close>

lemma calibrated_heat_nonnegative:
  assumes "0 \<le> SOC b" and "SOC b \<le> 1" and "- 20 \<le> cellT b" and "cellT b < 2"
    and "capacityAs b \<noteq> 0" and "0 \<le> dt"
  shows "\<exists>b' heat. battery_model_electrical b amps dt = Inr (b', heat) \<and> 0 \<le> heat"
proof -
  obtain p where p: "battery_model_get_parameters b = Inr p"
      and pos: "0 < R0 p" "0 < R1 p" "0 < C1 p"
    using calibrated_parameters_positive [OF assms(1-4)] by blast
  let ?V1 = "C1Q b / C1 p"
  let ?heat = "(R0 p * amps * amps + ?V1 * (?V1 / R1 p)) * dt"
  have "C1 p \<noteq> 0" "R1 p \<noteq> 0" using pos by simp_all
  then have step: "\<exists>b'. battery_model_electrical b amps dt = Inr (b', ?heat)"
    using electrical_defined [OF p _ _ assms(5), of amps dt] by blast
  have "0 \<le> R0 p * (amps * amps)" using pos(1) by simp
  then have "0 \<le> R0 p * amps * amps" by (simp add: mult.assoc)
  moreover have "0 \<le> ?V1 * ?V1 / R1 p" using pos(2) by (simp add: zero_le_divide_iff)
  then have "0 \<le> ?V1 * (?V1 / R1 p)" by simp
  ultimately have "0 \<le> ?heat" using assms(6) by simp
  with step show ?thesis by blast
qed

lemma calibrated_voltage_returns:
  assumes "0 \<le> SOC b" and "SOC b \<le> 1" and "- 20 \<le> cellT b" and "cellT b < 2"
  shows "\<exists>v. battery_model_voltage b amps = Inr v"
proof -
  obtain p where p: "battery_model_get_parameters b = Inr p" and pos: "0 < C1 p"
    using calibrated_parameters_positive [OF assms] by blast
  then show ?thesis
    by (simp add: battery_model_voltage_def and_then_Inr fdiv_def)
qed

text \<open>At a grid point below the last row the interpolation returns the stored entry.\<close>

lemma interpolate_at_bucket:
  assumes "0 \<le> ti" "ti \<le> 2" "0 \<le> si" "si \<le> 10"
  shows "battery_model_interpolate table (real_of_int ti) ti (real_of_int si) si
    = Inr (table ! nat ti ! nat si)"
  using assms by (simp add: interpolate_in Let_def)

text \<open>
  The battery of \<^verbatim>\<open>main\<close> before any step, drawn at 1.8 A: 4.2 V less 0.67 ohm
  times 1.8 A.
\<close>

lemma voltage_end_to_end:
  "and_then (battery_model_init 1.8 1 (- 20)) (\<lambda>battery. battery_model_voltage battery 1.8)
    = Inr 2.994"
  by (simp add: battery_model_init_def and_then_Inr battery_model_voltage_def
      full_cold_parameters fdiv_def)

section \<open>The claims\<close>

text \<open>
  C1, counterexample. The claim: below the lowest temperature of the tables (-20
  degrees) the four parameters are exactly those at -20 degrees, and at or above the
  highest (2 degrees) exactly those of the last row. An empty battery at -30 degrees
  gets \<open>R0 = 0.22\<close>, \<open>R1 = 3.996185\<close> and \<open>C1 = 785.65102\<close>; at -20 degrees it gets
  0.26, 2 and 400.
\<close>

theorem low_temperature_not_clamped_counterexample:
  "battery_model_get_parameters \<lparr>capacityAs = 6480, SOC = 0, C1Q = 0, cellT = - 30\<rparr>
     = Inr \<lparr>Em = 3.5, R0 = 0.22, R1 = 3.996185, C1 = 785.65102\<rparr>
   \<and> battery_model_get_parameters \<lparr>capacityAs = 6480, SOC = 0, C1Q = 0, cellT = - 20\<rparr>
     = Inr \<lparr>Em = 3.5, R0 = 0.26, R1 = 2, C1 = 400\<rparr>"
proof (intro conjI)
  show "battery_model_get_parameters \<lparr>capacityAs = 6480, SOC = 0, C1Q = 0, cellT = - 30\<rparr>
     = Inr \<lparr>Em = 3.5, R0 = 0.22, R1 = 3.996185, C1 = 785.65102\<rparr>"
    by (simp add: battery_model_get_parameters_def SOC_lookup_zero T_lookup_cases and_then_Inr
        interpolate_in tables)
qed (rule empty_parameters_minus20)

text \<open>
  C1 (amended). For every battery colder than -20 degrees (whose state of charge,
  times 10, converts to an \<^verbatim>\<open>int\<close>), the temperature index is 0 and the coordinate
  \<open>T_number\<close> is \<open>(cellT + 20) / 10\<close>, a negative number. The lookups at -20 and at
  -10 degrees succeed, and each of the four parameters lies on the straight line through
  its values \<open>p0\<close> at -20 and \<open>p1\<close> at -10 degrees:
  \<open>p0 + (p1 - p0) * (cellT + 20) / 10\<close>. The parameters are extrapolated, not held at
  the values of the lowest row. Temperatures of 2 degrees and more are left out here
  (see C2).
\<close>

theorem low_temperature_extrapolates:
  assumes "cellT b < - 20" and "- (2 ^ 31) - 1 < SOC b * 10" and "SOC b * 10 < 2 ^ 31"
  shows "T_lookup (cellT b) = Inr ((cellT b + 20) / 10, 0)
    \<and> (\<exists>p0 p1.
          battery_model_get_parameters (b\<lparr>cellT := - 20\<rparr>) = Inr p0
        \<and> battery_model_get_parameters (b\<lparr>cellT := - 10\<rparr>) = Inr p1
        \<and> battery_model_get_parameters b =
            Inr \<lparr>Em = Em p0 + (Em p1 - Em p0) * ((cellT b + 20) / 10),
                 R0 = R0 p0 + (R0 p1 - R0 p0) * ((cellT b + 20) / 10),
                 R1 = R1 p0 + (R1 p1 - R1 p0) * ((cellT b + 20) / 10),
                 C1 = C1 p0 + (C1 p1 - C1 p0) * ((cellT b + 20) / 10)\<rparr>)"
proof
  show t: "T_lookup (cellT b) = Inr ((cellT b + 20) / 10, 0)"
    using assms(1) by (simp add: T_lookup_cases)
  obtain sn si where s: "SOC_lookup (SOC b) = Inr (sn, si)"
    using SOC_lookup_total [OF assms(2,3)] by blast
  have si: "0 \<le> si" "si \<le> 10" using SOC_lookup_index [OF s] by simp_all
  have i0: "\<And>table t. battery_model_interpolate table t 0 sn si = Inr
      (let sn' = (if si = 10 then 10 else si + 1);
             II = table ! nat 0 ! nat si; IN = table ! nat 0 ! nat sn';
             TI = table ! nat (0 + 1) ! nat si; TN = table ! nat (0 + 1) ! nat sn';
             I = II + (IN - II) * (sn - real_of_int si);
             T = TI + (TN - TI) * (sn - real_of_int si)
         in I + (T - I) * (t - real_of_int 0))"
    by (rule interpolate_in [OF _ _ si]) simp_all
  have i1: "\<And>table t. battery_model_interpolate table t 1 sn si = Inr
      (let sn' = (if si = 10 then 10 else si + 1);
             II = table ! nat 1 ! nat si; IN = table ! nat 1 ! nat sn';
             TI = table ! nat (1 + 1) ! nat si; TN = table ! nat (1 + 1) ! nat sn';
             I = II + (IN - II) * (sn - real_of_int si);
             T = TI + (TN - TI) * (sn - real_of_int si)
         in I + (T - I) * (t - real_of_int 1))"
    by (rule interpolate_in [OF _ _ si]) simp_all
  show "\<exists>p0 p1.
          battery_model_get_parameters (b\<lparr>cellT := - 20\<rparr>) = Inr p0
        \<and> battery_model_get_parameters (b\<lparr>cellT := - 10\<rparr>) = Inr p1
        \<and> battery_model_get_parameters b =
            Inr \<lparr>Em = Em p0 + (Em p1 - Em p0) * ((cellT b + 20) / 10),
                 R0 = R0 p0 + (R0 p1 - R0 p0) * ((cellT b + 20) / 10),
                 R1 = R1 p0 + (R1 p1 - R1 p0) * ((cellT b + 20) / 10),
                 C1 = C1 p0 + (C1 p1 - C1 p0) * ((cellT b + 20) / 10)\<rparr>"
  proof -
    have t20: "T_lookup (- 20) = Inr (0, 0)" by (simp add: T_lookup_cases)
    have t10: "T_lookup (- 10) = Inr (1, 1)" by (simp add: T_lookup_cases)
    show ?thesis
      by (simp add: battery_model_get_parameters_def s t t20 t10 and_then_Inr i0 i1 Let_def)
  qed
qed

text \<open>C1 (amended), at an empty battery at -30 degrees: the coordinate is -1.\<close>

theorem low_temperature_extrapolates_witness:
  "T_lookup (- 30) = Inr (- 1, 0)
   \<and> battery_model_get_parameters \<lparr>capacityAs = 6480, SOC = 0, C1Q = 0, cellT = - 20\<rparr>
     = Inr \<lparr>Em = 3.5, R0 = 0.26, R1 = 2, C1 = 400\<rparr>
   \<and> battery_model_get_parameters \<lparr>capacityAs = 6480, SOC = 0, C1Q = 0, cellT = - 10\<rparr>
     = Inr \<lparr>Em = 3.5, R0 = 0.3, R1 = 0.003815, C1 = 14.34898\<rparr>
   \<and> battery_model_get_parameters \<lparr>capacityAs = 6480, SOC = 0, C1Q = 0, cellT = - 30\<rparr>
     = Inr \<lparr>Em = 3.5 + (3.5 - 3.5) * (- 1), R0 = 0.26 + (0.3 - 0.26) * (- 1),
            R1 = 2 + (0.003815 - 2) * (- 1), C1 = 400 + (14.34898 - 400) * (- 1)\<rparr>"
proof -
  let ?b = "\<lparr>capacityAs = 6480, SOC = 0, C1Q = 0, cellT = - 30\<rparr>"
  have w: "T_lookup (cellT ?b) = Inr ((cellT ?b + 20) / 10, 0)
    \<and> (\<exists>p0 p1.
          battery_model_get_parameters (?b\<lparr>cellT := - 20\<rparr>) = Inr p0
        \<and> battery_model_get_parameters (?b\<lparr>cellT := - 10\<rparr>) = Inr p1
        \<and> battery_model_get_parameters ?b =
            Inr \<lparr>Em = Em p0 + (Em p1 - Em p0) * ((cellT ?b + 20) / 10),
                 R0 = R0 p0 + (R0 p1 - R0 p0) * ((cellT ?b + 20) / 10),
                 R1 = R1 p0 + (R1 p1 - R1 p0) * ((cellT ?b + 20) / 10),
                 C1 = C1 p0 + (C1 p1 - C1 p0) * ((cellT ?b + 20) / 10)\<rparr>)"
    by (rule low_temperature_extrapolates) simp_all
  then obtain p0 p1 where
    p0: "battery_model_get_parameters (?b\<lparr>cellT := - 20\<rparr>) = Inr p0" and
    p1: "battery_model_get_parameters (?b\<lparr>cellT := - 10\<rparr>) = Inr p1" and
    pb: "battery_model_get_parameters ?b =
            Inr \<lparr>Em = Em p0 + (Em p1 - Em p0) * ((cellT ?b + 20) / 10),
                 R0 = R0 p0 + (R0 p1 - R0 p0) * ((cellT ?b + 20) / 10),
                 R1 = R1 p0 + (R1 p1 - R1 p0) * ((cellT ?b + 20) / 10),
                 C1 = C1 p0 + (C1 p1 - C1 p0) * ((cellT ?b + 20) / 10)\<rparr>"
    by blast
  have e0: "p0 = \<lparr>Em = 3.5, R0 = 0.26, R1 = 2, C1 = 400\<rparr>"
    using p0 empty_parameters_minus20 by simp
  have e1: "p1 = \<lparr>Em = 3.5, R0 = 0.3, R1 = 0.003815, C1 = 14.34898\<rparr>"
    using p1 empty_parameters_minus10 by simp
  have "T_lookup (- 30) = Inr (- 1, 0)" using w [THEN conjunct1] by simp
  moreover have "battery_model_get_parameters ?b
     = Inr \<lparr>Em = 3.5 + (3.5 - 3.5) * (- 1), R0 = 0.26 + (0.3 - 0.26) * (- 1),
            R1 = 2 + (0.003815 - 2) * (- 1), C1 = 400 + (14.34898 - 400) * (- 1)\<rparr>"
    using pb by (simp add: e0 e1)
  ultimately show ?thesis
    using empty_parameters_minus20 empty_parameters_minus10 by blast
qed

text \<open>
  C2 (the code departs from the claim). The claim: for every table, every SOC index
  \<open>0 \<le> si \<le> 10\<close> and every temperature index \<open>0 \<le> ti \<le> 3\<close>,
  \<^verbatim>\<open>battery_model_interpolate\<close> reads inside the table only and returns a value, its
  next row index never exceeding 3. The code saturates the next row index to
  \<open>battery_model_table_temps\<close> (4), where the next column index is saturated to
  \<open>battery_model_table_SOCs - 1\<close>: with \<open>ti = 3\<close> it reads row 4, outside the table,
  whatever the table and the other arguments are; \<^verbatim>\<open>battery_model_get_parameters\<close>
  reaches this for every cell temperature of 2 degrees or more.
\<close>

theorem interpolate_last_row_out_of_bounds:
  "battery_model_interpolate table T_number 3 SOC_number SOC_index = Inl OutOfBounds
   \<and> battery_model_interpolate battery_model_Em 0 3 5 5 = Inl OutOfBounds
   \<and> T_lookup 25 = Inr (0, 3)
   \<and> battery_model_get_parameters \<lparr>capacityAs = 6480, SOC = 0.5, C1Q = 0, cellT = 25\<rparr>
       = Inl OutOfBounds"
proof -
  have s: "SOC_lookup (1 / 2) = Inr (5, 5)" using SOC_lookup_unit [of "1 / 2"] by simp
  show ?thesis
    by (simp add: interpolate_last_row battery_model_get_parameters_def s T_lookup_cases
        and_then_Inr and_then_Inl)
qed

text \<open>
  C3. For every battery whose parameters resolve to \<open>p\<close>, every current \<open>amps\<close> and
  every timestep \<open>dt\<close>: with \<open>V1 = C1Q / C1\<close> and \<open>I1 = V1 / R1\<close>, one call of
  \<^verbatim>\<open>battery_model_electrical\<close> sets \<open>C1Q\<close> to \<open>C1Q + (amps - I1) * dt\<close>, sets
  \<open>SOC\<close> to \<open>SOC - amps * dt / capacityAs\<close>, returns the heat
  \<open>(R0 * amps * amps + V1 * I1) * dt\<close> and leaves \<open>capacityAs\<close> and \<open>cellT\<close> as they
  were. The three divisors \<open>C1\<close>, \<open>R1\<close> and \<open>capacityAs\<close> are taken nonzero, where the
  quotients of the claim are real numbers.
\<close>

theorem electrical_step_formulas:
  assumes "battery_model_get_parameters b = Inr p"
    and "C1 p \<noteq> 0" and "R1 p \<noteq> 0" and "capacityAs b \<noteq> 0"
  shows "let V1 = C1Q b / C1 p; I1 = V1 / R1 p in
    battery_model_electrical b amps dt =
    Inr (\<lparr>capacityAs = capacityAs b,
          SOC = SOC b - amps * dt / capacityAs b,
          C1Q = C1Q b + (amps - I1) * dt,
          cellT = cellT b\<rparr>,
         (R0 p * amps * amps + V1 * I1) * dt)"
  unfolding Let_def by (rule electrical_defined [OF assms])

text \<open>C3, at a battery of 80 percent charge at -20 degrees, drawn at 1.8 A for 12 s.\<close>

theorem electrical_step_formulas_witness:
  "battery_model_get_parameters \<lparr>capacityAs = 6480, SOC = 0.8, C1Q = 1, cellT = -20\<rparr>
     = Inr \<lparr>Em = 3.95, R0 = 0.25, R1 = 0.1, C1 = 600\<rparr>
   \<and> battery_model_electrical \<lparr>capacityAs = 6480, SOC = 0.8, C1Q = 1, cellT = -20\<rparr> 1.8 12
     = Inr (\<lparr>capacityAs = 6480, SOC = 239 / 300, C1Q = 22.4, cellT = -20\<rparr>, 29161 / 3000)"
proof (intro conjI)
  show "battery_model_electrical \<lparr>capacityAs = 6480, SOC = 0.8, C1Q = 1, cellT = -20\<rparr> 1.8 12
     = Inr (\<lparr>capacityAs = 6480, SOC = 239 / 300, C1Q = 22.4, cellT = -20\<rparr>, 29161 / 3000)"
    using electrical_step_formulas [OF partial_cold_parameters, of "1.8" 12]
    by (simp add: Let_def)
qed (rule partial_cold_parameters)

text \<open>
  C4 (the code departs from the claim). The claim: the coordinate is \<open>soc * 10\<close>; for
  \<open>soc\<close> in \<open>[0, 1]\<close> the index is in \<open>0 .. 9\<close> with a fraction in \<open>[0, 1)\<close>, or 10
  with fraction 0 at \<open>soc = 1\<close>; outside \<open>[0, 1]\<close> index and coordinate are clamped to
  0 or 10 with fraction 0, so that nothing is extrapolated along the SOC axis. The code
  truncates the coordinate toward zero and tests the truncated index: for \<open>soc\<close> between
  -0.1 and 0 the index is 0, the guard \<open>SOC_index < 0\<close> does not fire and the coordinate
  stays negative. At \<open>soc = -0.05\<close> the fraction is -0.5 and, at -20 degrees,
  \<open>Em = 3.425\<close>, below every entry of the table. Between 1 and 1.1 the coordinate is
  not clamped either (index 10, fraction 0.5 at \<open>soc = 1.05\<close>).
\<close>

theorem negative_soc_fraction_extrapolates:
  "SOC_lookup (- 0.05) = Inr (- 0.5, 0)
   \<and> battery_model_get_parameters \<lparr>capacityAs = 6480, SOC = - 0.05, C1Q = 0, cellT = -20\<rparr>
     = Inr \<lparr>Em = 3.425, R0 = 0.26, R1 = 2.625, C1 = 350\<rparr>
   \<and> SOC_lookup 1.05 = Inr (10.5, 10)"
proof -
  have s: "SOC_lookup (- (1 / 20)) = Inr (- (1 / 2), 0)"
    using SOC_lookup_neg_fraction [of "- (1 / 20)"] by simp
  have h: "SOC_lookup (21 / 20) = Inr (21 / 2, 10)"
    using SOC_lookup_high [of "21 / 20"] by simp
  have "battery_model_get_parameters \<lparr>capacityAs = 6480, SOC = - (1 / 20), C1Q = 0, cellT = -20\<rparr>
     = Inr \<lparr>Em = 3.425, R0 = 0.26, R1 = 2.625, C1 = 350\<rparr>"
    by (simp add: battery_model_get_parameters_def s T_lookup_cases and_then_Inr
        interpolate_in tables)
  with s h show ?thesis by simp
qed

text \<open>
  C5. For every battery whose parameters resolve to \<open>p\<close> (with \<open>C1 p\<close> nonzero, so that
  the quotient is a real number) and every current \<open>amps\<close>,
  \<^verbatim>\<open>battery_model_voltage\<close> returns \<open>Em - C1Q / C1 - R0 * amps\<close>. The function
  returns the voltage only: it has no way to change the battery.
\<close>

theorem voltage_formula:
  assumes "battery_model_get_parameters b = Inr p" and "C1 p \<noteq> 0"
  shows "battery_model_voltage b amps = Inr (Em p - C1Q b / C1 p - R0 p * amps)"
  using assms
  by (simp add: battery_model_voltage_def and_then_Inr fdiv_nonzero)

text \<open>C5, at a battery of 80 percent charge at -20 degrees, drawn at 1.8 A.\<close>

theorem voltage_formula_witness:
  "battery_model_get_parameters \<lparr>capacityAs = 6480, SOC = 0.8, C1Q = 1, cellT = -20\<rparr>
     = Inr \<lparr>Em = 3.95, R0 = 0.25, R1 = 0.1, C1 = 600\<rparr>
   \<and> battery_model_voltage \<lparr>capacityAs = 6480, SOC = 0.8, C1Q = 1, cellT = -20\<rparr> 1.8
     = Inr (2099 / 600)"
proof (intro conjI)
  show "battery_model_voltage \<lparr>capacityAs = 6480, SOC = 0.8, C1Q = 1, cellT = -20\<rparr> 1.8
     = Inr (2099 / 600)"
    using voltage_formula [OF partial_cold_parameters, of "1.8"] by simp
qed (rule partial_cold_parameters)




text \<open>
  C7, counterexample. The claim: for every battery and every \<open>dt > 0\<close> a zero-draw
  step leaves \<open>SOC\<close> unchanged and multiplies \<open>C1Q\<close> by \<open>1 - dt / (R1 * C1)\<close>, so
  that with \<open>R1\<close> and \<open>C1\<close> positive repeated zero-draw steps drive \<open>C1Q\<close> toward 0.
  At 80 percent charge and -20 degrees \<open>R1 = 0.1\<close> and \<open>C1 = 600\<close>; with \<open>dt = 180\<close>
  the factor is -2, and one coulomb becomes -2, 4 and -8 coulombs after one, two and
  three steps.
\<close>

theorem zero_draw_large_step_counterexample:
  "battery_model_get_parameters \<lparr>capacityAs = 6480, SOC = 0.8, C1Q = 1, cellT = -20\<rparr>
     = Inr \<lparr>Em = 3.95, R0 = 0.25, R1 = 0.1, C1 = 600\<rparr>
   \<and> repeat_electrical 1 0 180 \<lparr>capacityAs = 6480, SOC = 0.8, C1Q = 1, cellT = -20\<rparr>
       = Inr \<lparr>capacityAs = 6480, SOC = 0.8, C1Q = - 2, cellT = -20\<rparr>
   \<and> repeat_electrical 2 0 180 \<lparr>capacityAs = 6480, SOC = 0.8, C1Q = 1, cellT = -20\<rparr>
       = Inr \<lparr>capacityAs = 6480, SOC = 0.8, C1Q = 4, cellT = -20\<rparr>
   \<and> repeat_electrical 3 0 180 \<lparr>capacityAs = 6480, SOC = 0.8, C1Q = 1, cellT = -20\<rparr>
       = Inr \<lparr>capacityAs = 6480, SOC = 0.8, C1Q = - 8, cellT = -20\<rparr>"
proof -
  note r = repeat_zero_draw [OF partial_cold_parameters, of _ 180]
  have "repeat_electrical 1 0 180 \<lparr>capacityAs = 6480, SOC = 0.8, C1Q = 1, cellT = -20\<rparr>
       = Inr \<lparr>capacityAs = 6480, SOC = 0.8, C1Q = - 2, cellT = -20\<rparr>"
    using r [of 1] by simp
  moreover have "repeat_electrical 2 0 180 \<lparr>capacityAs = 6480, SOC = 0.8, C1Q = 1, cellT = -20\<rparr>
       = Inr \<lparr>capacityAs = 6480, SOC = 0.8, C1Q = 4, cellT = -20\<rparr>"
    using r [of 2] by simp
  moreover have "repeat_electrical 3 0 180 \<lparr>capacityAs = 6480, SOC = 0.8, C1Q = 1, cellT = -20\<rparr>
       = Inr \<lparr>capacityAs = 6480, SOC = 0.8, C1Q = - 8, cellT = -20\<rparr>"
    using r [of 3] by (simp add: power3_eq_cube)
  ultimately show ?thesis using partial_cold_parameters by blast
qed

text \<open>
  C7 (amended). For every battery with nonzero capacity whose parameters resolve to
  \<open>p\<close> with \<open>R1 p\<close> and \<open>C1 p\<close> nonzero, and every \<open>dt\<close>: a zero-draw step leaves
  \<open>SOC\<close> (and \<open>capacityAs\<close>, \<open>cellT\<close>) unchanged and sets \<open>C1Q\<close> to
  \<open>C1Q * (1 - dt / (R1 * C1))\<close>; after \<open>n\<close> zero-draw steps \<open>SOC\<close> is what it was
  and \<open>C1Q\<close> is \<open>C1Q * (1 - dt / (R1 * C1)) ^ n\<close>; with \<open>R1\<close> and \<open>C1\<close> positive
  and \<open>0 < dt < 2 * R1 * C1\<close> this sequence tends to 0.
\<close>

theorem zero_draw_relaxation:
  assumes "battery_model_get_parameters b = Inr p"
    and "R1 p \<noteq> 0" and "C1 p \<noteq> 0" and "capacityAs b \<noteq> 0"
  shows "(\<exists>heat. battery_model_electrical b 0 dt =
            Inr (\<lparr>capacityAs = capacityAs b, SOC = SOC b,
                  C1Q = C1Q b * (1 - dt / (R1 p * C1 p)), cellT = cellT b\<rparr>, heat))
    \<and> (\<forall>n. repeat_electrical n 0 dt b =
            Inr \<lparr>capacityAs = capacityAs b, SOC = SOC b,
                 C1Q = C1Q b * (1 - dt / (R1 p * C1 p)) ^ n, cellT = cellT b\<rparr>)
    \<and> (0 < R1 p \<and> 0 < C1 p \<and> 0 < dt \<and> dt < 2 * (R1 p * C1 p) \<longrightarrow>
          (\<lambda>n. C1Q b * (1 - dt / (R1 p * C1 p)) ^ n) \<longlonglongrightarrow> 0)"
proof (intro conjI allI impI)
  show "\<exists>heat. battery_model_electrical b 0 dt =
            Inr (\<lparr>capacityAs = capacityAs b, SOC = SOC b,
                  C1Q = C1Q b * (1 - dt / (R1 p * C1 p)), cellT = cellT b\<rparr>, heat)"
    using zero_draw_step [OF assms(1,3,2,4), of dt] by blast
  show "repeat_electrical n 0 dt b =
            Inr \<lparr>capacityAs = capacityAs b, SOC = SOC b,
                 C1Q = C1Q b * (1 - dt / (R1 p * C1 p)) ^ n, cellT = cellT b\<rparr>" for n
    by (rule repeat_zero_draw [OF assms(1,3,2,4)])
  assume dt: "0 < R1 p \<and> 0 < C1 p \<and> 0 < dt \<and> dt < 2 * (R1 p * C1 p)"
  then have pos: "0 < R1 p * C1 p" by simp
  have "0 < dt / (R1 p * C1 p)" using dt pos by simp
  moreover have "dt / (R1 p * C1 p) < 2" using dt pos by (simp add: pos_divide_less_eq)
  ultimately have "\<bar>1 - dt / (R1 p * C1 p)\<bar> < 1" by simp
  then show "(\<lambda>n. C1Q b * (1 - dt / (R1 p * C1 p)) ^ n) \<longlonglongrightarrow> 0"
    by (rule relaxation_limit)
qed

text \<open>
  C7 (amended), at the battery of the counterexample with \<open>dt = 12\<close>: the factor is
  0.8, and one coulomb becomes 0.512 coulombs after three steps.
\<close>

theorem zero_draw_relaxation_witness:
  "battery_model_get_parameters \<lparr>capacityAs = 6480, SOC = 0.8, C1Q = 1, cellT = -20\<rparr>
     = Inr \<lparr>Em = 3.95, R0 = 0.25, R1 = 0.1, C1 = 600\<rparr>
   \<and> (\<exists>heat. battery_model_electrical \<lparr>capacityAs = 6480, SOC = 0.8, C1Q = 1, cellT = -20\<rparr> 0 12
         = Inr (\<lparr>capacityAs = 6480, SOC = 0.8, C1Q = 0.8, cellT = -20\<rparr>, heat))
   \<and> repeat_electrical 3 0 12 \<lparr>capacityAs = 6480, SOC = 0.8, C1Q = 1, cellT = -20\<rparr>
       = Inr \<lparr>capacityAs = 6480, SOC = 0.8, C1Q = 0.512, cellT = -20\<rparr>
   \<and> (\<lambda>n. (1::real) * (1 - 12 / (0.1 * 600)) ^ n) \<longlonglongrightarrow> 0"
proof -
  note w = zero_draw_relaxation [OF partial_cold_parameters, of 12]
  have "\<exists>heat. battery_model_electrical \<lparr>capacityAs = 6480, SOC = 0.8, C1Q = 1, cellT = -20\<rparr> 0 12
         = Inr (\<lparr>capacityAs = 6480, SOC = 0.8, C1Q = 0.8, cellT = -20\<rparr>, heat)"
    using w [THEN conjunct1] by simp
  moreover have "repeat_electrical 3 0 12 \<lparr>capacityAs = 6480, SOC = 0.8, C1Q = 1, cellT = -20\<rparr>
       = Inr \<lparr>capacityAs = 6480, SOC = 0.8, C1Q = 0.512, cellT = -20\<rparr>"
    using w [THEN conjunct2, THEN conjunct1, THEN spec, of 3] by (simp add: power3_eq_cube)
  moreover have "(\<lambda>n. (1::real) * (1 - 12 / (0.1 * 600)) ^ n) \<longlonglongrightarrow> 0"
    using w [THEN conjunct2, THEN conjunct2] by simp
  ultimately show ?thesis using partial_cold_parameters by blast
qed

text \<open>
  C8, counterexample. The claim: for all argument values \<^verbatim>\<open>battery_model_thermal\<close>
  sets \<open>cellT\<close> to \<open>cellT + (heating_joules - (cellT - ambientT) * area / Rvalue * dt) /
  (specific_heat * mass)\<close> and changes no other field, and leaves \<open>cellT\<close> exactly
  unchanged when \<open>heating_joules = 0\<close> and \<open>ambientT = cellT\<close>. With \<open>Rvalue = 0\<close>
  the code divides by zero (0/0, not a number, in C), and the temperature is not
  \<open>cellT\<close> afterwards.
\<close>

theorem thermal_zero_Rvalue_counterexample:
  "battery_model_thermal \<lparr>capacityAs = 6480, SOC = 1, C1Q = 0, cellT = -20\<rparr>
     0 0.9 150 (-20) 0 0.01 12 = Inl DivisionByZero"
  by (simp add: battery_model_thermal_def fdiv_def and_then_def)

text \<open>
  C8 (amended). For all argument values with \<open>Rvalue\<close> and \<open>specific_heat * mass\<close>
  nonzero, the call sets \<open>cellT\<close> to the value of the formula and changes no other
  field; with \<open>heating_joules = 0\<close> and \<open>ambientT = cellT\<close> the battery is unchanged.
\<close>

theorem thermal_step_formula:
  assumes "Rvalue \<noteq> 0" and "specific_heat * mass \<noteq> 0"
  shows "battery_model_thermal b heating_joules specific_heat mass ambientT Rvalue area dt =
      Inr \<lparr>capacityAs = capacityAs b, SOC = SOC b, C1Q = C1Q b,
           cellT = cellT b + (heating_joules - (cellT b - ambientT) * area / Rvalue * dt)
                              / (specific_heat * mass)\<rparr>
    \<and> battery_model_thermal b 0 specific_heat mass (cellT b) Rvalue area dt = Inr b"
  using assms
  by (simp add: battery_model_thermal_def and_then_Inr fdiv_nonzero Let_def)

text \<open>C8 (amended), with the thermal arguments of \<^verbatim>\<open>main\<close> at -15 degrees.\<close>

theorem thermal_step_formula_witness:
  "(0.1::real) \<noteq> 0 \<and> (0.9::real) * 150 \<noteq> 0
   \<and> battery_model_thermal \<lparr>capacityAs = 6480, SOC = 1, C1Q = 0, cellT = -15\<rparr>
        27 0.9 150 (-20) 0.1 0.01 12
      = Inr \<lparr>capacityAs = 6480, SOC = 1, C1Q = 0, cellT = - (668 / 45)\<rparr>
   \<and> battery_model_thermal \<lparr>capacityAs = 6480, SOC = 1, C1Q = 0, cellT = -15\<rparr>
        0 0.9 150 (-15) 0.1 0.01 12
      = Inr \<lparr>capacityAs = 6480, SOC = 1, C1Q = 0, cellT = -15\<rparr>"
  using thermal_step_formula [of "0.1" "0.9" 150
      "\<lparr>capacityAs = 6480, SOC = 1, C1Q = 0, cellT = -15\<rparr>" 27 "-20" "0.01" 12]
  by simp

text \<open>
  C9, counterexample. The claim: construction with a capacity of 0 amp-hours or less
  fails with an invalid-configuration error, and succeeds for a positive one. The code
  checks nothing: a capacity of 0 gives a battery.
\<close>

theorem init_zero_capacity_counterexample:
  "battery_model_init 0 1 (-20) = Inr \<lparr>capacityAs = 0, SOC = 1, C1Q = 0, cellT = -20\<rparr>"
  by (simp add: battery_model_init_def)

text \<open>
  C9 (amended). For every capacity, positive or not, \<^verbatim>\<open>battery_model_init\<close>
  succeeds and gives the battery with \<open>capacityAs = capacityAh * 3600\<close>, the state of
  charge and the temperature given, and \<open>C1Q = 0\<close>.
\<close>

theorem init_always_succeeds:
  "battery_model_init capacityAh soc tempC =
    Inr \<lparr>capacityAs = capacityAh * 3600, SOC = soc, C1Q = 0, cellT = tempC\<rparr>"
  by (simp add: battery_model_init_def)




end
